theory Spec2Isabelle
  imports Main "HOL-Library.Word"
begin

unbundle bit_operations_syntax

section \<open>Go integers, durations and instants\<close>

text \<open>
  Go's \<open>int64\<close> (and \<open>time.Duration\<close>, an \<open>int64\<close> count of nanoseconds) is modelled as
  an \<open>int\<close> with the two's complement wrap-around written out: every sum, difference and
  product of the source passes through \<open>wrap64\<close>.  A \<open>time.Time\<close> is an instant in
  nanoseconds on one clock; \<open>Sub\<close> saturates to the range of a Duration as the standard
  library documents.  The clock reading \<open>time.Now()\<close> is the parameter \<open>now\<close> of each
  operation.
\<close>

definition MaxInt64 :: int where
  "MaxInt64 = 9223372036854775807"

definition MinInt64 :: int where
  "MinInt64 = - 9223372036854775808"

definition wrap64 :: "int \<Rightarrow> int" where
  "wrap64 x = (x + 9223372036854775808) mod 18446744073709551616 - 9223372036854775808"

datatype go_panic = DivideByZero

text \<open>Go's \<open>/\<close> truncates towards zero and panics on a zero divisor.\<close>

definition quo :: "int \<Rightarrow> int \<Rightarrow> int" where
  "quo a b = sgn a * sgn b * (\<bar>a\<bar> div \<bar>b\<bar>)"

definition div_i64 :: "int \<Rightarrow> int \<Rightarrow> go_panic + int" where
  "div_i64 a b = (if b = 0 then Inl DivideByZero else Inr (wrap64 (quo a b)))"

text \<open>The helper \<open>min\<close> of the token bucket file.\<close>

definition min_i64 :: "int \<Rightarrow> int \<Rightarrow> int" where
  "min_i64 a b = (if a < b then a else b)"

definition time_Sub :: "int \<Rightarrow> int \<Rightarrow> int" where
  "time_Sub t u =
     (let d = t - u in
      if d > MaxInt64 then MaxInt64 else if d < MinInt64 then MinInt64 else d)"

definition time_Add :: "int \<Rightarrow> int \<Rightarrow> int" where
  "time_Add t d = t + d"

section \<open>In-memory token bucket\<close>

record tokenBucket =
  tb_capacity :: int
  tb_tokens :: int
  tb_refillRate :: int
  tb_lastRefill :: int

definition NewTokenBucket :: "int \<Rightarrow> int \<Rightarrow> int \<Rightarrow> tokenBucket" where
  "NewTokenBucket now capacity refillRate =
     \<lparr>tb_capacity = capacity, tb_tokens = capacity,
      tb_refillRate = refillRate, tb_lastRefill = now\<rparr>"

definition tokenBucket_refill :: "tokenBucket \<Rightarrow> int \<Rightarrow> go_panic + tokenBucket" where
  "tokenBucket_refill tb now =
     (let elapsed = time_Sub now (tb_lastRefill tb) in
      case div_i64 elapsed (tb_refillRate tb) of
        Inl p \<Rightarrow> Inl p
      | Inr refillPeriods \<Rightarrow>
          if refillPeriods > 0 then
            let tokensToAdd = refillPeriods;
                actualTimeProcessed = wrap64 (refillPeriods * tb_refillRate tb)
            in Inr (tb\<lparr>tb_tokens := min_i64 (tb_capacity tb) (wrap64 (tb_tokens tb + tokensToAdd)),
                       tb_lastRefill := time_Add (tb_lastRefill tb) actualTimeProcessed\<rparr>)
          else Inr tb)"

definition tokenBucket_TryConsume ::
  "tokenBucket \<Rightarrow> int \<Rightarrow> int \<Rightarrow> go_panic + (bool \<times> tokenBucket)" where
  "tokenBucket_TryConsume tb now tokens =
     (if tokens < 0 then Inr (False, tb)
      else case tokenBucket_refill tb now of
        Inl p \<Rightarrow> Inl p
      | Inr tb1 \<Rightarrow>
          if tb_tokens tb1 \<ge> tokens
          then Inr (True, tb1\<lparr>tb_tokens := wrap64 (tb_tokens tb1 - tokens)\<rparr>)
          else Inr (False, tb1))"

definition tokenBucket_GetStatus ::
  "tokenBucket \<Rightarrow> int \<Rightarrow> go_panic + ((int \<times> int \<times> int) \<times> tokenBucket)" where
  "tokenBucket_GetStatus tb now =
     (case tokenBucket_refill tb now of
        Inl p \<Rightarrow> Inl p
      | Inr tb1 \<Rightarrow>
          Inr ((tb_tokens tb1, tb_capacity tb1, time_Add (tb_lastRefill tb1) (tb_refillRate tb1)),
               tb1))"

section \<open>In-memory leaky bucket\<close>

record leakyBucket =
  lb_capacity :: int
  lb_queue :: int
  lb_leakRate :: int
  lb_lastLeak :: int

definition NewLeakyBucket :: "int \<Rightarrow> int \<Rightarrow> int \<Rightarrow> leakyBucket" where
  "NewLeakyBucket now capacity leakRate =
     \<lparr>lb_capacity = capacity, lb_queue = 0, lb_leakRate = leakRate, lb_lastLeak = now\<rparr>"

definition leakyBucket_leak :: "leakyBucket \<Rightarrow> int \<Rightarrow> go_panic + leakyBucket" where
  "leakyBucket_leak lb now =
     (let elapsed = time_Sub now (lb_lastLeak lb) in
      case div_i64 elapsed (lb_leakRate lb) of
        Inl p \<Rightarrow> Inl p
      | Inr leakPeriods \<Rightarrow>
          if leakPeriods > 0 \<and> lb_queue lb > 0 then
            let requestsToLeak = min_i64 leakPeriods (lb_queue lb)
            in Inr (lb\<lparr>lb_queue := wrap64 (lb_queue lb - requestsToLeak),
                       lb_lastLeak := time_Add (lb_lastLeak lb)
                                        (wrap64 (requestsToLeak * lb_leakRate lb))\<rparr>)
          else Inr lb)"

definition leakyBucket_TryAdd ::
  "leakyBucket \<Rightarrow> int \<Rightarrow> int \<Rightarrow> go_panic + (bool \<times> leakyBucket)" where
  "leakyBucket_TryAdd lb now requests =
     (if requests < 0 then Inr (False, lb)
      else case leakyBucket_leak lb now of
        Inl p \<Rightarrow> Inl p
      | Inr lb1 \<Rightarrow>
          if wrap64 (lb_queue lb1 + requests) > lb_capacity lb1
          then Inr (False, lb1)
          else Inr (True, lb1\<lparr>lb_queue := wrap64 (lb_queue lb1 + requests)\<rparr>))"

definition leakyBucket_GetStatus ::
  "leakyBucket \<Rightarrow> int \<Rightarrow> go_panic + ((int \<times> int \<times> int) \<times> leakyBucket)" where
  "leakyBucket_GetStatus lb now =
     (case leakyBucket_leak lb now of
        Inl p \<Rightarrow> Inl p
      | Inr lb1 \<Rightarrow>
          Inr ((lb_queue lb1, lb_capacity lb1, time_Add (lb_lastLeak lb1) (lb_leakRate lb1)),
               lb1))"

section \<open>The Redis instance and the stored records\<close>

text \<open>
  A Redis instance holds, under the key prefixes \<open>rate_limit:token_bucket:\<close> and
  \<open>rate_limit:leaky_bucket:\<close>, the JSON records the two Lua scripts write.  The model
  keeps one map per prefix, from the full key to an entry: the payload, which is either
  a record of the script's shape or \<open>Corrupt\<close> (bytes that neither \<open>cjson.decode\<close> nor
  \<open>json.Unmarshal\<close> accepts), and the instant at which the entry expires.  \<open>EXPIRE key 3600\<close>
  sets that instant to one hour after the instance's current time, and an entry is
  visible to \<open>GET\<close> only before it.  The instance and its callers read one clock, in
  nanoseconds.  The string field \<open>algorithm\<close> of a record is written and never read; it
  is left out.  Lua numbers are modelled as exact integers, so \<open>math.floor (a / b)\<close> is
  \<open>a div b\<close>.  An instance that cannot be reached is \<open>Unreachable\<close>: every command sent to
  it returns an error.
\<close>

record token_data =
  td_capacity :: int
  td_tokens :: int
  td_refill_rate_ns :: int
  td_last_refill_ns :: int
  td_last_updated :: int

record leaky_data =
  ld_capacity :: int
  ld_queue_length :: int
  ld_leak_rate_ns :: int
  ld_last_leak_ns :: int
  ld_last_updated :: int

datatype 'a payload = Corrupt | Json 'a

record 'a entry =
  payload :: "'a payload"
  expires_at :: int

record redis_db =
  tokenKeys :: "string \<rightharpoonup> token_data entry"
  leakyKeys :: "string \<rightharpoonup> leaky_data entry"

datatype redis_server = Unreachable | Reachable redis_db

datatype lua_error = DecodeError | EncodeError

datatype redis_error = ConnError | RedisNil | ScriptError lua_error

text \<open>
  The commands of the instance at its time \<open>server_time\<close>: \<open>GET\<close> on one of the two key
  families, and \<open>SET\<close> followed by \<open>EXPIRE key 3600\<close>, as both scripts issue them.
\<close>

definition redis_GET ::
  "(redis_db \<Rightarrow> string \<rightharpoonup> 'a entry) \<Rightarrow> redis_db \<Rightarrow> int \<Rightarrow> string \<Rightarrow> 'a entry option" where
  "redis_GET family db server_time k =
     (case family db k of
        None \<Rightarrow> None
      | Some e \<Rightarrow> if server_time < expires_at e then Some e else None)"

definition expire_after :: "int \<Rightarrow> int" where
  "expire_after server_time = server_time + 3600 * 1000000000"

definition store_token_data :: "string \<Rightarrow> token_data \<Rightarrow> int \<Rightarrow> redis_db \<Rightarrow> redis_db" where
  "store_token_data bucket_key updated_data server_time db =
     db\<lparr>tokenKeys := (tokenKeys db)(bucket_key \<mapsto>
          \<lparr>payload = Json updated_data, expires_at = expire_after server_time\<rparr>)\<rparr>"

definition store_leaky_data :: "string \<Rightarrow> leaky_data \<Rightarrow> int \<Rightarrow> redis_db \<Rightarrow> redis_db" where
  "store_leaky_data bucket_key updated_data server_time db =
     db\<lparr>leakyKeys := (leakyKeys db)(bucket_key \<mapsto>
          \<lparr>payload = Json updated_data, expires_at = expire_after server_time\<rparr>)\<rparr>"

text \<open>
  The client's \<open>Get\<close> and \<open>Eval\<close>.  A script runs at the instance's time; a script that
  raises an error leaves the data as it was (both scripts decode and encode before they
  write).
\<close>

definition Get ::
  "(redis_db \<Rightarrow> string \<rightharpoonup> 'a entry) \<Rightarrow> redis_server \<Rightarrow> int \<Rightarrow> string
     \<Rightarrow> redis_error + 'a entry" where
  "Get family srv server_time k =
     (case srv of
        Unreachable \<Rightarrow> Inl ConnError
      | Reachable db \<Rightarrow>
          (case redis_GET family db server_time k of
             None \<Rightarrow> Inl RedisNil
           | Some e \<Rightarrow> Inr e))"

definition Eval ::
  "redis_server \<Rightarrow> int \<Rightarrow> (int \<Rightarrow> redis_db \<Rightarrow> lua_error + (int \<times> redis_db))
     \<Rightarrow> redis_error + (int \<times> redis_server)" where
  "Eval srv server_time script =
     (case srv of
        Unreachable \<Rightarrow> Inl ConnError
      | Reachable db \<Rightarrow>
          (case script server_time db of
             Inl err \<Rightarrow> Inl (ScriptError err)
           | Inr (result, db') \<Rightarrow> Inr (result, Reachable db')))"

section \<open>Redis-backed token bucket\<close>

record TokenBucketRedis =
  tbr_key :: string
  tbr_capacity :: int
  tbr_refillRate :: int

definition NewTokenBucketRedis :: "string \<Rightarrow> int \<Rightarrow> int \<Rightarrow> TokenBucketRedis" where
  "NewTokenBucketRedis k capacity refillRate =
     \<lparr>tbr_key = ''rate_limit:token_bucket:'' @ k, tbr_capacity = capacity,
      tbr_refillRate = refillRate\<rparr>"

text \<open>
  The Lua script of \<open>TryConsume\<close>.  A payload that \<open>cjson.decode\<close> rejects aborts the
  script.  With a zero refill period and time passed, Lua's division gives infinity and
  the new \<open>last_refill_ns\<close> is not a number, which \<open>cjson.encode\<close> rejects; with a zero
  period and no time passed the quotient is not positive and nothing is refilled.
\<close>

definition token_bucket_script ::
  "string \<Rightarrow> int \<Rightarrow> int \<Rightarrow> int \<Rightarrow> int \<Rightarrow> int \<Rightarrow> redis_db \<Rightarrow> lua_error + (int \<times> redis_db)" where
  "token_bucket_script bucket_key tokens_needed capacity refill_rate_ns now_ns server_time db =
     (case (case redis_GET tokenKeys db server_time bucket_key of
              None \<Rightarrow> Inr (capacity, now_ns)
            | Some e \<Rightarrow>
                (case payload e of
                   Corrupt \<Rightarrow> Inl DecodeError
                 | Json data \<Rightarrow> Inr (td_tokens data, td_last_refill_ns data))) of
        Inl err \<Rightarrow> Inl err
      | Inr (current_tokens0, last_refill_ns0) \<Rightarrow>
          let time_passed_ns = now_ns - last_refill_ns0 in
          if refill_rate_ns = 0 \<and> time_passed_ns > 0 then Inl EncodeError
          else
            let tokens_to_add = time_passed_ns div refill_rate_ns;
                current_tokens =
                  (if tokens_to_add > 0 then min capacity (current_tokens0 + tokens_to_add)
                   else current_tokens0);
                last_refill_ns =
                  (if tokens_to_add > 0 then last_refill_ns0 + tokens_to_add * refill_rate_ns
                   else last_refill_ns0)
            in if current_tokens \<ge> tokens_needed then
                 Inr (1, store_token_data bucket_key
                           \<lparr>td_capacity = capacity,
                            td_tokens = current_tokens - tokens_needed,
                            td_refill_rate_ns = refill_rate_ns,
                            td_last_refill_ns = last_refill_ns,
                            td_last_updated = now_ns\<rparr> server_time db)
               else
                 Inr (0, store_token_data bucket_key
                           \<lparr>td_capacity = capacity,
                            td_tokens = current_tokens,
                            td_refill_rate_ns = refill_rate_ns,
                            td_last_refill_ns = last_refill_ns,
                            td_last_updated = now_ns\<rparr> server_time db))"

definition TokenBucketRedis_TryConsume ::
  "TokenBucketRedis \<Rightarrow> redis_server \<Rightarrow> int \<Rightarrow> int \<Rightarrow> bool \<times> redis_server" where
  "TokenBucketRedis_TryConsume tbr srv now tokens =
     (if tokens < 0 then (False, srv)
      else case Eval srv now (token_bucket_script (tbr_key tbr) tokens (tbr_capacity tbr)
                                (tbr_refillRate tbr) now) of
        Inl err \<Rightarrow> (False, srv)
      | Inr (result, srv') \<Rightarrow> (result = 1, srv'))"

definition TokenBucketRedis_GetStatus ::
  "TokenBucketRedis \<Rightarrow> redis_server \<Rightarrow> int \<Rightarrow> go_panic + (int \<times> int \<times> int)" where
  "TokenBucketRedis_GetStatus tbr srv now =
     (case Get tokenKeys srv now (tbr_key tbr) of
        Inl err \<Rightarrow> Inr (tbr_capacity tbr, tbr_capacity tbr, time_Add now (tbr_refillRate tbr))
      | Inr e \<Rightarrow>
          (case payload e of
             Corrupt \<Rightarrow>
               Inr (tbr_capacity tbr, tbr_capacity tbr, time_Add now (tbr_refillRate tbr))
           | Json data \<Rightarrow>
               let lastRefillNs = td_last_refill_ns data;
                   timePassed = wrap64 (now - lastRefillNs)
               in (case div_i64 timePassed (td_refill_rate_ns data) of
                     Inl p \<Rightarrow> Inl p
                   | Inr tokensToAdd \<Rightarrow>
                       let currentTokens0 = wrap64 (td_tokens data + tokensToAdd);
                           currentTokens =
                             (if currentTokens0 > td_capacity data then td_capacity data
                              else currentTokens0)
                       in Inr (currentTokens, td_capacity data,
                               time_Add lastRefillNs (td_refill_rate_ns data)))))"

definition TokenBucketRedis_HasState :: "TokenBucketRedis \<Rightarrow> redis_server \<Rightarrow> int \<Rightarrow> bool" where
  "TokenBucketRedis_HasState tbr srv now =
     (case Get tokenKeys srv now (tbr_key tbr) of Inl err \<Rightarrow> False | Inr e \<Rightarrow> True)"

section \<open>Redis-backed leaky bucket\<close>

record LeakyBucketRedis =
  lbr_key :: string
  lbr_capacity :: int
  lbr_leakRate :: int

definition NewLeakyBucketRedis :: "string \<Rightarrow> int \<Rightarrow> int \<Rightarrow> LeakyBucketRedis" where
  "NewLeakyBucketRedis k capacity leakRate =
     \<lparr>lbr_key = ''rate_limit:leaky_bucket:'' @ k, lbr_capacity = capacity,
      lbr_leakRate = leakRate\<rparr>"

text \<open>
  The Lua script of \<open>TryAdd\<close>.  With a zero leak period, time passed and a non-empty
  queue the leak count is the queue length and the new \<open>last_leak_ns\<close> stays a number
  (\<open>queue * 0\<close>), so nothing is rejected by \<open>cjson.encode\<close>: infinity only enters the
  comparison \<open>leak_periods > 0\<close> and the minimum with the queue length.
\<close>

definition leaky_bucket_script ::
  "string \<Rightarrow> int \<Rightarrow> int \<Rightarrow> int \<Rightarrow> int \<Rightarrow> int \<Rightarrow> redis_db \<Rightarrow> lua_error + (int \<times> redis_db)" where
  "leaky_bucket_script bucket_key requests_to_add capacity leak_rate_ns now_ns server_time db =
     (case (case redis_GET leakyKeys db server_time bucket_key of
              None \<Rightarrow> Inr (0, now_ns)
            | Some e \<Rightarrow>
                (case payload e of
                   Corrupt \<Rightarrow> Inl DecodeError
                 | Json data \<Rightarrow> Inr (ld_queue_length data, ld_last_leak_ns data))) of
        Inl err \<Rightarrow> Inl err
      | Inr (current_queue0, last_leak_ns0) \<Rightarrow>
          let time_passed_ns = now_ns - last_leak_ns0;
              leaking =
                (if leak_rate_ns = 0 then time_passed_ns > 0 \<and> current_queue0 > 0
                 else time_passed_ns div leak_rate_ns > 0 \<and> current_queue0 > 0);
              requests_to_leak =
                (if leak_rate_ns = 0 then current_queue0
                 else min (time_passed_ns div leak_rate_ns) current_queue0);
              current_queue =
                (if leaking then current_queue0 - requests_to_leak else current_queue0);
              last_leak_ns =
                (if leaking then last_leak_ns0 + requests_to_leak * leak_rate_ns
                 else last_leak_ns0)
          in if current_queue + requests_to_add \<le> capacity then
               Inr (1, store_leaky_data bucket_key
                         \<lparr>ld_capacity = capacity,
                          ld_queue_length = current_queue + requests_to_add,
                          ld_leak_rate_ns = leak_rate_ns,
                          ld_last_leak_ns = last_leak_ns,
                          ld_last_updated = now_ns\<rparr> server_time db)
             else
               Inr (0, store_leaky_data bucket_key
                         \<lparr>ld_capacity = capacity,
                          ld_queue_length = current_queue,
                          ld_leak_rate_ns = leak_rate_ns,
                          ld_last_leak_ns = last_leak_ns,
                          ld_last_updated = now_ns\<rparr> server_time db))"

definition LeakyBucketRedis_TryAdd ::
  "LeakyBucketRedis \<Rightarrow> redis_server \<Rightarrow> int \<Rightarrow> int \<Rightarrow> bool \<times> redis_server" where
  "LeakyBucketRedis_TryAdd lbr srv now requests =
     (if requests < 0 then (False, srv)
      else case Eval srv now (leaky_bucket_script (lbr_key lbr) requests (lbr_capacity lbr)
                                (lbr_leakRate lbr) now) of
        Inl err \<Rightarrow> (False, srv)
      | Inr (result, srv') \<Rightarrow> (result = 1, srv'))"

definition LeakyBucketRedis_GetStatus ::
  "LeakyBucketRedis \<Rightarrow> redis_server \<Rightarrow> int \<Rightarrow> go_panic + (int \<times> int \<times> int)" where
  "LeakyBucketRedis_GetStatus lbr srv now =
     (case Get leakyKeys srv now (lbr_key lbr) of
        Inl err \<Rightarrow> Inr (0, lbr_capacity lbr, time_Add now (lbr_leakRate lbr))
      | Inr e \<Rightarrow>
          (case payload e of
             Corrupt \<Rightarrow> Inr (0, lbr_capacity lbr, time_Add now (lbr_leakRate lbr))
           | Json data \<Rightarrow>
               let lastLeakNs = ld_last_leak_ns data;
                   timePassed = wrap64 (now - lastLeakNs)
               in (case div_i64 timePassed (ld_leak_rate_ns data) of
                     Inl p \<Rightarrow> Inl p
                   | Inr leakPeriods \<Rightarrow>
                       let currentQueue0 = wrap64 (ld_queue_length data - leakPeriods);
                           currentQueue = (if currentQueue0 < 0 then 0 else currentQueue0)
                       in Inr (currentQueue, ld_capacity data,
                               time_Add lastLeakNs (ld_leak_rate_ns data)))))"

definition LeakyBucketRedis_HasState :: "LeakyBucketRedis \<Rightarrow> redis_server \<Rightarrow> int \<Rightarrow> bool" where
  "LeakyBucketRedis_HasState lbr srv now =
     (case Get leakyKeys srv now (lbr_key lbr) of Inl err \<Rightarrow> False | Inr e \<Rightarrow> True)"

section \<open>Shard routing\<close>

text \<open>
  \<open>crc32.ChecksumIEEE\<close> of Go's standard library: the reflected CRC-32 of IEEE 802.3
  (polynomial \<open>0xEDB88320\<close>, initial value and final complement \<open>0xFFFFFFFF\<close>), computed
  bit by bit over the bytes of the key.
\<close>

fun crc_bits :: "nat \<Rightarrow> 32 word \<Rightarrow> 32 word" where
  "crc_bits 0 c = c"
| "crc_bits (Suc n) c =
     crc_bits n (if c AND 1 = 1 then drop_bit 1 c XOR 0xEDB88320 else drop_bit 1 c)"

definition crc_byte :: "32 word \<Rightarrow> char \<Rightarrow> 32 word" where
  "crc_byte c b = crc_bits 8 (c XOR of_char b)"

definition ChecksumIEEE :: "string \<Rightarrow> 32 word" where
  "ChecksumIEEE s = foldl crc_byte 0xFFFFFFFF s XOR 0xFFFFFFFF"

text \<open>
  The manager holds one client per configured instance; the model stores, at the client's
  index, the state of the instance behind it.  Go's \<open>int\<close> is taken to be 64 bits wide, so
  \<open>int(hash)\<close> is the unsigned value of the checksum.  \<open>%\<close> panics when there is no client.
  \<open>GetClient\<close> returns the address of the slice element at that index, a pointer that
  is never nil: \<open>Some\<close> of the position in the list.
\<close>

record RedisManager =
  clients :: "redis_server list"

definition GetClientIndex :: "RedisManager \<Rightarrow> string \<Rightarrow> go_panic + int" where
  "GetClientIndex rm userID =
     (let hash = ChecksumIEEE userID in
      if length (clients rm) = 0 then Inl DivideByZero
      else Inr (uint hash mod int (length (clients rm))))"

definition GetClient :: "RedisManager \<Rightarrow> string \<Rightarrow> go_panic + nat option" where
  "GetClient rm userID =
     (let hash = ChecksumIEEE userID in
      if length (clients rm) = 0 then Inl DivideByZero
      else let index = uint hash mod int (length (clients rm)) in Inr (Some (nat index)))"

section \<open>The rate limiter service\<close>

text \<open>
  The service holds the manager, the two configured defaults and the two in-memory maps.
  The metrics collector only counts calls and is left out.  A bucket held by pointer in a
  map is updated in place by its methods; the model writes the updated bucket back.
\<close>

record Config =
  DefaultCapacity :: int
  DefaultRefill :: int

record RedisRateLimiterService =
  redisManager :: RedisManager
  config :: Config
  tokenBuckets :: "string \<rightharpoonup> tokenBucket"
  leakyBuckets :: "string \<rightharpoonup> leakyBucket"

definition getOrCreateTokenBucket ::
  "RedisRateLimiterService \<Rightarrow> int \<Rightarrow> string \<Rightarrow> tokenBucket \<times> RedisRateLimiterService" where
  "getOrCreateTokenBucket rrs now k =
     (case tokenBuckets rrs k of
        Some bucket \<Rightarrow> (bucket, rrs)
      | None \<Rightarrow>
          let bucket = NewTokenBucket now (DefaultCapacity (config rrs)) (DefaultRefill (config rrs))
          in (bucket, rrs\<lparr>tokenBuckets := (tokenBuckets rrs)(k \<mapsto> bucket)\<rparr>))"

definition getOrCreateLeakyBucket ::
  "RedisRateLimiterService \<Rightarrow> int \<Rightarrow> string \<Rightarrow> leakyBucket \<times> RedisRateLimiterService" where
  "getOrCreateLeakyBucket rrs now k =
     (case leakyBuckets rrs k of
        Some bucket \<Rightarrow> (bucket, rrs)
      | None \<Rightarrow>
          let bucket = NewLeakyBucket now (DefaultCapacity (config rrs)) (DefaultRefill (config rrs))
          in (bucket, rrs\<lparr>leakyBuckets := (leakyBuckets rrs)(k \<mapsto> bucket)\<rparr>))"

definition acquireInMemoryFallback ::
  "RedisRateLimiterService \<Rightarrow> int \<Rightarrow> string \<Rightarrow> int \<Rightarrow> string
     \<Rightarrow> go_panic + (bool \<times> RedisRateLimiterService)" where
  "acquireInMemoryFallback rrs now k tokens algorithm =
     (if algorithm = ''leaky_bucket'' then
        (let (bucket, rrs1) = getOrCreateLeakyBucket rrs now k in
         case leakyBucket_TryAdd bucket now tokens of
           Inl p \<Rightarrow> Inl p
         | Inr (result, bucket') \<Rightarrow>
             Inr (result, rrs1\<lparr>leakyBuckets := (leakyBuckets rrs1)(k \<mapsto> bucket')\<rparr>))
      else
        (let (bucket, rrs1) = getOrCreateTokenBucket rrs now k in
         case tokenBucket_TryConsume bucket now tokens of
           Inl p \<Rightarrow> Inl p
         | Inr (result, bucket') \<Rightarrow>
             Inr (result, rrs1\<lparr>tokenBuckets := (tokenBuckets rrs1)(k \<mapsto> bucket')\<rparr>)))"

definition Acquire ::
  "RedisRateLimiterService \<Rightarrow> int \<Rightarrow> string \<Rightarrow> int \<Rightarrow> string
     \<Rightarrow> go_panic + (bool \<times> RedisRateLimiterService)" where
  "Acquire rrs now k tokens algorithm =
     (case GetClient (redisManager rrs) k of
        Inl p \<Rightarrow> Inl p
      | Inr None \<Rightarrow> acquireInMemoryFallback rrs now k tokens algorithm
      | Inr (Some i) \<Rightarrow>
          let client = clients (redisManager rrs) ! i;
              (result, client') =
                (if algorithm = ''leaky_bucket'' then
                   LeakyBucketRedis_TryAdd
                     (NewLeakyBucketRedis k (DefaultCapacity (config rrs)) (DefaultRefill (config rrs)))
                     client now tokens
                 else
                   TokenBucketRedis_TryConsume
                     (NewTokenBucketRedis k (DefaultCapacity (config rrs)) (DefaultRefill (config rrs)))
                     client now tokens)
          in Inr (result,
                  rrs\<lparr>redisManager := (redisManager rrs)\<lparr>clients :=
                         (clients (redisManager rrs))[i := client']\<rparr>\<rparr>))"

subsection \<open>Status\<close>

record AlgorithmStatus =
  as_Algorithm :: string
  as_TokensLeft :: int
  as_Capacity :: int
  as_RefillRate :: int
  as_NextRefillTime :: int
  as_IsBlocked :: bool
  as_HasState :: bool


definition defaultStatus :: "RedisRateLimiterService \<Rightarrow> int \<Rightarrow> string \<Rightarrow> AlgorithmStatus" where
  "defaultStatus rrs now algorithm =
     \<lparr>as_Algorithm = algorithm,
      as_TokensLeft = DefaultCapacity (config rrs),
      as_Capacity = DefaultCapacity (config rrs),
      as_RefillRate = DefaultRefill (config rrs),
      as_NextRefillTime = time_Add now (DefaultRefill (config rrs)),
      as_IsBlocked = False,
      as_HasState = False\<rparr>"

definition getInMemoryTokenBucketStatus ::
  "RedisRateLimiterService \<Rightarrow> int \<Rightarrow> string
     \<Rightarrow> go_panic + (AlgorithmStatus \<times> RedisRateLimiterService)" where
  "getInMemoryTokenBucketStatus rrs now k =
     (case tokenBuckets rrs k of
        Some bucket \<Rightarrow>
          (case tokenBucket_GetStatus bucket now of
             Inl p \<Rightarrow> Inl p
           | Inr ((tokensLeft, capacity, nextRefill), bucket') \<Rightarrow>
               Inr (\<lparr>as_Algorithm = ''token_bucket'',
                     as_TokensLeft = tokensLeft,
                     as_Capacity = capacity,
                     as_RefillRate = DefaultRefill (config rrs),
                     as_NextRefillTime = nextRefill,
                     as_IsBlocked = (tokensLeft = 0),
                     as_HasState = True\<rparr>,
                    rrs\<lparr>tokenBuckets := (tokenBuckets rrs)(k \<mapsto> bucket')\<rparr>))
      | None \<Rightarrow> Inr (defaultStatus rrs now ''token_bucket'', rrs))"

definition getInMemoryLeakyBucketStatus ::
  "RedisRateLimiterService \<Rightarrow> int \<Rightarrow> string
     \<Rightarrow> go_panic + (AlgorithmStatus \<times> RedisRateLimiterService)" where
  "getInMemoryLeakyBucketStatus rrs now k =
     (case leakyBuckets rrs k of
        Some bucket \<Rightarrow>
          (case leakyBucket_GetStatus bucket now of
             Inl p \<Rightarrow> Inl p
           | Inr ((queueLength, capacity, nextLeak), bucket') \<Rightarrow>
               Inr (\<lparr>as_Algorithm = ''leaky_bucket'',
                     as_TokensLeft = wrap64 (capacity - queueLength),
                     as_Capacity = capacity,
                     as_RefillRate = DefaultRefill (config rrs),
                     as_NextRefillTime = nextLeak,
                     as_IsBlocked = (queueLength \<ge> capacity),
                     as_HasState = True\<rparr>,
                    rrs\<lparr>leakyBuckets := (leakyBuckets rrs)(k \<mapsto> bucket')\<rparr>))
      | None \<Rightarrow> Inr (defaultStatus rrs now ''leaky_bucket'', rrs))"

definition getTokenBucketStatus ::
  "RedisRateLimiterService \<Rightarrow> int \<Rightarrow> string
     \<Rightarrow> go_panic + (AlgorithmStatus \<times> RedisRateLimiterService)" where
  "getTokenBucketStatus rrs now k =
     (case GetClient (redisManager rrs) k of
        Inl p \<Rightarrow> Inl p
      | Inr None \<Rightarrow> getInMemoryTokenBucketStatus rrs now k
      | Inr (Some i) \<Rightarrow>
          let client = clients (redisManager rrs) ! i;
              tokenBucketRedis =
                NewTokenBucketRedis k (DefaultCapacity (config rrs)) (DefaultRefill (config rrs))
          in if \<not> TokenBucketRedis_HasState tokenBucketRedis client now
             then Inr (defaultStatus rrs now ''token_bucket'', rrs)
             else (case TokenBucketRedis_GetStatus tokenBucketRedis client now of
                     Inl p \<Rightarrow> Inl p
                   | Inr (tokensLeft, capacity, nextRefill) \<Rightarrow>
                       Inr (\<lparr>as_Algorithm = ''token_bucket'',
                             as_TokensLeft = tokensLeft,
                             as_Capacity = capacity,
                             as_RefillRate = DefaultRefill (config rrs),
                             as_NextRefillTime = nextRefill,
                             as_IsBlocked = (tokensLeft = 0),
                             as_HasState = True\<rparr>, rrs)))"

definition getLeakyBucketStatus ::
  "RedisRateLimiterService \<Rightarrow> int \<Rightarrow> string
     \<Rightarrow> go_panic + (AlgorithmStatus \<times> RedisRateLimiterService)" where
  "getLeakyBucketStatus rrs now k =
     (case GetClient (redisManager rrs) k of
        Inl p \<Rightarrow> Inl p
      | Inr None \<Rightarrow> getInMemoryLeakyBucketStatus rrs now k
      | Inr (Some i) \<Rightarrow>
          let client = clients (redisManager rrs) ! i;
              leakyBucketRedis =
                NewLeakyBucketRedis k (DefaultCapacity (config rrs)) (DefaultRefill (config rrs))
          in if \<not> LeakyBucketRedis_HasState leakyBucketRedis client now
             then Inr (defaultStatus rrs now ''leaky_bucket'', rrs)
             else (case LeakyBucketRedis_GetStatus leakyBucketRedis client now of
                     Inl p \<Rightarrow> Inl p
                   | Inr (queueLength, capacity, nextLeak) \<Rightarrow>
                       let availableSpace = wrap64 (capacity - queueLength)
                       in Inr (\<lparr>as_Algorithm = ''leaky_bucket'',
                                as_TokensLeft = availableSpace,
                                as_Capacity = capacity,
                                as_RefillRate = DefaultRefill (config rrs),
                                as_NextRefillTime = nextLeak,
                                as_IsBlocked = (queueLength \<ge> capacity),
                                as_HasState = True\<rparr>, rrs)))"




section \<open>The acquire endpoint\<close>

text \<open>
  The request as the handler sees it: the HTTP method, the user id the JWT middleware put
  into the context (empty when absent) and the decoded JSON body (\<open>None\<close> when decoding
  fails).  The handler answers with an error status or with the outcome of \<open>Acquire\<close>.
\<close>

record AcquireRequest =
  ar_Key :: string
  ar_Tokens :: int
  ar_Algorithm :: string

record http_request =
  req_method :: string
  req_userID :: string
  req_body :: "AcquireRequest option"

datatype http_response = SendError nat | SendAcquireSuccess | SendRateLimited

definition AcquireHandler ::
  "RedisRateLimiterService \<Rightarrow> int \<Rightarrow> http_request
     \<Rightarrow> go_panic + (http_response \<times> RedisRateLimiterService)" where
  "AcquireHandler rrs now r =
     (if req_method r \<noteq> ''POST'' then Inr (SendError 405, rrs)
      else if req_userID r = [] then Inr (SendError 500, rrs)
      else case req_body r of
        None \<Rightarrow> Inr (SendError 400, rrs)
      | Some req0 \<Rightarrow>
          let req1 = req0\<lparr>ar_Key := req_userID r\<rparr>;
              req2 = (if ar_Tokens req1 \<le> 0 then req1\<lparr>ar_Tokens := 1\<rparr> else req1);
              req3 = (if ar_Algorithm req2 = [] then req2\<lparr>ar_Algorithm := ''token_bucket''\<rparr>
                      else req2)
          in (case Acquire rrs now (ar_Key req3) (ar_Tokens req3) (ar_Algorithm req3) of
                Inl p \<Rightarrow> Inl p
              | Inr (allowed, rrs') \<Rightarrow>
                  Inr (if allowed then SendAcquireSuccess else SendRateLimited, rrs')))"

section \<open>Sequences of admission attempts\<close>








section \<open>Arithmetic of the model\<close>

lemma wrap64_id: "MinInt64 \<le> x \<Longrightarrow> x \<le> MaxInt64 \<Longrightarrow> wrap64 x = x"
  by (simp add: wrap64_def MinInt64_def MaxInt64_def)

lemma quo_nonneg: "0 \<le> a \<Longrightarrow> 0 < b \<Longrightarrow> quo a b = a div b"
  by (cases "a = 0") (simp_all add: quo_def)

lemma time_Sub_id: "MinInt64 \<le> t - u \<Longrightarrow> t - u \<le> MaxInt64 \<Longrightarrow> time_Sub t u = t - u"
  by (simp add: time_Sub_def)

lemma div_bounds:
  fixes a b :: int
  assumes "0 \<le> a" "0 < b"
  shows "0 \<le> a div b" and "a div b \<le> a" and "a div b * b \<le> a" and "0 \<le> a div b * b"
proof -
  show p: "0 \<le> a div b" using assms by (simp add: pos_imp_zdiv_nonneg_iff)
  show "a div b \<le> a"
    using assms int_div_le_self [of a b] by (cases "a = 0") simp_all
  have "a div b * b + a mod b = a" by simp
  moreover have "0 \<le> a mod b" using assms by simp
  ultimately show "a div b * b \<le> a" by linarith
  show "0 \<le> a div b * b" using p assms by simp
qed

lemma div_i64_nonneg:
  assumes "0 \<le> a" "a \<le> MaxInt64" "0 < b"
  shows "div_i64 a b = Inr (a div b)"
proof -
  have "wrap64 (a div b) = a div b"
    using assms div_bounds(1,2) [of a b] by (intro wrap64_id) (simp_all add: MinInt64_def)
  then show ?thesis using assms by (simp add: div_i64_def quo_nonneg)
qed

section \<open>The transitions in closed form\<close>

text \<open>
  With a positive period, a clock that has not run backwards and sums that stay inside
  \<open>int64\<close>, each engine computes the refill or drain of whole periods and then decides.
\<close>

lemma tokenBucket_refill_eq:
  assumes "0 < tb_refillRate tb"
    and "tb_lastRefill tb \<le> now" and "now - tb_lastRefill tb \<le> MaxInt64"
    and "0 \<le> tb_tokens tb" and "tb_tokens tb \<le> tb_capacity tb"
    and "tb_tokens tb + (now - tb_lastRefill tb) div tb_refillRate tb \<le> MaxInt64"
  shows "tokenBucket_refill tb now =
           Inr (tb\<lparr>tb_tokens := min (tb_capacity tb)
                         (tb_tokens tb + (now - tb_lastRefill tb) div tb_refillRate tb),
                    tb_lastRefill := tb_lastRefill tb
                         + (now - tb_lastRefill tb) div tb_refillRate tb * tb_refillRate tb\<rparr>)"
proof -
  define e where "e = now - tb_lastRefill tb"
  define p where "p = e div tb_refillRate tb"
  have e: "0 \<le> e" "e \<le> MaxInt64" using assms by (simp_all add: e_def)
  have sub: "time_Sub now (tb_lastRefill tb) = e"
    using e by (simp add: e_def time_Sub_id MinInt64_def)
  have dv: "div_i64 e (tb_refillRate tb) = Inr p"
    using e assms(1) by (simp add: div_i64_nonneg p_def)
  have p: "0 \<le> p" "p * tb_refillRate tb \<le> e" "0 \<le> p * tb_refillRate tb"
    using div_bounds [of e "tb_refillRate tb"] e assms(1) by (simp_all add: p_def)
  have w1: "wrap64 (p * tb_refillRate tb) = p * tb_refillRate tb"
    using p e by (intro wrap64_id) (simp_all add: MinInt64_def)
  have w2: "wrap64 (tb_tokens tb + p) = tb_tokens tb + p"
    using p assms by (intro wrap64_id) (simp_all add: MinInt64_def p_def e_def)
  show ?thesis
  proof (cases "0 < p")
    case True
    then show ?thesis
      using sub dv w1 w2
      by (simp add: tokenBucket_refill_def time_Add_def min_i64_def min_def
            p_def [symmetric] e_def [symmetric])
  next
    case False
    then have "p = 0" using p by simp
    then show ?thesis
      using sub dv assms(5)
      by (simp add: tokenBucket_refill_def p_def [symmetric] e_def [symmetric])
  qed
qed

lemma tokenBucket_TryConsume_eq:
  assumes "0 < tb_refillRate tb"
    and "tb_lastRefill tb \<le> now" and "now - tb_lastRefill tb \<le> MaxInt64"
    and "0 \<le> tb_tokens tb" and "tb_tokens tb \<le> tb_capacity tb"
    and "tb_tokens tb + (now - tb_lastRefill tb) div tb_refillRate tb \<le> MaxInt64"
    and "0 \<le> n"
  shows "tokenBucket_TryConsume tb now n =
     (let periods = (now - tb_lastRefill tb) div tb_refillRate tb;
          level = min (tb_capacity tb) (tb_tokens tb + periods);
          anchorTime = tb_lastRefill tb + periods * tb_refillRate tb
      in Inr (n \<le> level,
              tb\<lparr>tb_tokens := (if n \<le> level then level - n else level),
                 tb_lastRefill := anchorTime\<rparr>))"
proof -
  define p where "p = (now - tb_lastRefill tb) div tb_refillRate tb"
  define L where "L = min (tb_capacity tb) (tb_tokens tb + p)"
  define A where "A = tb_lastRefill tb + p * tb_refillRate tb"
  have p: "0 \<le> p" using div_bounds(1) [of "now - tb_lastRefill tb" "tb_refillRate tb"] assms
    by (simp add: p_def)
  have L: "0 \<le> L" "L \<le> MaxInt64" using p assms by (simp_all add: L_def p_def)
  have r: "tokenBucket_refill tb now = Inr (tb\<lparr>tb_tokens := L, tb_lastRefill := A\<rparr>)"
    unfolding L_def A_def p_def by (rule tokenBucket_refill_eq [OF assms(1-6)])
  have goal: "tokenBucket_TryConsume tb now n =
      Inr (n \<le> L, tb\<lparr>tb_tokens := (if n \<le> L then L - n else L), tb_lastRefill := A\<rparr>)"
  proof (cases "n \<le> L")
    case True
    then have "wrap64 (L - n) = L - n"
      using L assms(7) by (intro wrap64_id) (simp_all add: MinInt64_def)
    then show ?thesis using True assms(7) by (simp add: tokenBucket_TryConsume_def r)
  next
    case False
    then show ?thesis using assms(7) by (simp add: tokenBucket_TryConsume_def r)
  qed
  show ?thesis unfolding Let_def using goal by (simp only: L_def A_def p_def)
qed


lemma leakyBucket_leak_eq:
  assumes "0 < lb_leakRate lb"
    and "lb_lastLeak lb \<le> now" and "now - lb_lastLeak lb \<le> MaxInt64"
    and "0 \<le> lb_queue lb" and "lb_queue lb \<le> MaxInt64"
  shows "leakyBucket_leak lb now =
     (let drained = min ((now - lb_lastLeak lb) div lb_leakRate lb) (lb_queue lb)
      in Inr (lb\<lparr>lb_queue := lb_queue lb - drained,
                 lb_lastLeak := lb_lastLeak lb + drained * lb_leakRate lb\<rparr>))"
proof -
  define e where "e = now - lb_lastLeak lb"
  define p where "p = e div lb_leakRate lb"
  define dr where "dr = min p (lb_queue lb)"
  have e: "0 \<le> e" "e \<le> MaxInt64" using assms by (simp_all add: e_def)
  have sub: "time_Sub now (lb_lastLeak lb) = e"
    using e by (simp add: e_def time_Sub_id MinInt64_def)
  have dv: "div_i64 e (lb_leakRate lb) = Inr p"
    using e assms(1) by (simp add: div_i64_nonneg p_def)
  have p: "0 \<le> p" "p * lb_leakRate lb \<le> e"
    using div_bounds [of e "lb_leakRate lb"] e assms(1) by (simp_all add: p_def)
  have dr: "0 \<le> dr" "dr \<le> p" "dr \<le> lb_queue lb" using p assms(4) by (simp_all add: dr_def)
  have le: "dr * lb_leakRate lb \<le> p * lb_leakRate lb"
    using dr(2) assms(1) by (simp add: mult_right_mono)
  have drr: "0 \<le> dr * lb_leakRate lb" "dr * lb_leakRate lb \<le> MaxInt64"
  proof -
    show "0 \<le> dr * lb_leakRate lb" using dr(1) assms(1) by simp
    show "dr * lb_leakRate lb \<le> MaxInt64" using le p(2) e(2) by linarith
  qed
  have w1: "wrap64 (dr * lb_leakRate lb) = dr * lb_leakRate lb"
    using drr by (intro wrap64_id) (simp_all add: MinInt64_def)
  have w2: "wrap64 (lb_queue lb - dr) = lb_queue lb - dr"
    using dr assms(4,5) by (intro wrap64_id) (simp_all add: MinInt64_def)
  have goal: "leakyBucket_leak lb now =
      Inr (lb\<lparr>lb_queue := lb_queue lb - dr, lb_lastLeak := lb_lastLeak lb + dr * lb_leakRate lb\<rparr>)"
  proof (cases "0 < p \<and> 0 < lb_queue lb")
    case True
    have m: "min_i64 p (lb_queue lb) = dr" by (simp add: min_i64_def dr_def min_def)
    show ?thesis
      using True sub dv w1 w2
      by (simp add: leakyBucket_leak_def time_Add_def m e_def [symmetric])
  next
    case False
    then have "dr = 0" using p(1) assms(4) by (auto simp: dr_def min_def)
    moreover have "\<not> (0 < p \<and> 0 < lb_queue lb)" using False .
    ultimately show ?thesis
      using sub dv by (simp add: leakyBucket_leak_def e_def [symmetric] del: de_Morgan_conj)
  qed
  show ?thesis unfolding Let_def using goal by (simp only: dr_def p_def e_def)
qed

lemma leakyBucket_TryAdd_eq:
  assumes "0 < lb_leakRate lb"
    and "lb_lastLeak lb \<le> now" and "now - lb_lastLeak lb \<le> MaxInt64"
    and "0 \<le> lb_queue lb" and "0 \<le> n" and "lb_queue lb + n \<le> MaxInt64"
  shows "leakyBucket_TryAdd lb now n =
     (let drained = min ((now - lb_lastLeak lb) div lb_leakRate lb) (lb_queue lb);
          level = lb_queue lb - drained;
          anchorTime = lb_lastLeak lb + drained * lb_leakRate lb
      in Inr (level + n \<le> lb_capacity lb,
              lb\<lparr>lb_queue := (if level + n \<le> lb_capacity lb then level + n else level),
                 lb_lastLeak := anchorTime\<rparr>))"
proof -
  define dr where "dr = min ((now - lb_lastLeak lb) div lb_leakRate lb) (lb_queue lb)"
  define L where "L = lb_queue lb - dr"
  define A where "A = lb_lastLeak lb + dr * lb_leakRate lb"
  have p: "0 \<le> (now - lb_lastLeak lb) div lb_leakRate lb"
    using div_bounds(1) [of "now - lb_lastLeak lb" "lb_leakRate lb"] assms by simp
  have dr: "0 \<le> dr" "dr \<le> lb_queue lb" using p assms(4) by (simp_all add: dr_def)
  have q: "lb_queue lb \<le> MaxInt64" using assms(5,6) by simp
  have r: "leakyBucket_leak lb now = Inr (lb\<lparr>lb_queue := L, lb_lastLeak := A\<rparr>)"
    using leakyBucket_leak_eq [OF assms(1-4) q] by (simp add: Let_def L_def A_def dr_def)
  have w: "wrap64 (L + n) = L + n"
    using dr assms(4,5,6) by (intro wrap64_id) (simp_all add: MinInt64_def L_def)
  have goal: "leakyBucket_TryAdd lb now n =
      Inr (L + n \<le> lb_capacity lb,
           lb\<lparr>lb_queue := (if L + n \<le> lb_capacity lb then L + n else L), lb_lastLeak := A\<rparr>)"
    using assms(5) w by (simp add: leakyBucket_TryAdd_def r)
  show ?thesis unfolding Let_def using goal by (simp only: L_def A_def dr_def)
qed

lemma leaky_bucket_script_eq:
  assumes "redis_GET leakyKeys db st k = Some e" and "payload e = Json d"
    and "0 < rate" and "ld_last_leak_ns d \<le> now" and "0 \<le> ld_queue_length d"
  shows "leaky_bucket_script k n capacity rate now st db =
     (let drained = min ((now - ld_last_leak_ns d) div rate) (ld_queue_length d);
          level = ld_queue_length d - drained;
          anchorTime = ld_last_leak_ns d + drained * rate
      in Inr (if level + n \<le> capacity then 1 else 0,
              store_leaky_data k
                \<lparr>ld_capacity = capacity,
                 ld_queue_length = (if level + n \<le> capacity then level + n else level),
                 ld_leak_rate_ns = rate,
                 ld_last_leak_ns = anchorTime,
                 ld_last_updated = now\<rparr> st db))"
proof -
  define p where "p = (now - ld_last_leak_ns d) div rate"
  have p: "0 \<le> p" using div_bounds(1) [of "now - ld_last_leak_ns d" rate] assms
    by (simp add: p_def)
  show ?thesis
  proof (cases "0 < p \<and> 0 < ld_queue_length d")
    case True
    then show ?thesis using assms
      by (simp add: leaky_bucket_script_def Let_def p_def [symmetric])
  next
    case False
    then have "min p (ld_queue_length d) = 0" using p assms(5) by (auto simp: min_def)
    then show ?thesis using False assms
      by (simp add: leaky_bucket_script_def Let_def p_def [symmetric])
  qed
qed

section \<open>The Redis engines in closed form\<close>


lemma redis_GET_store_leaky_data:
  "redis_GET leakyKeys (store_leaky_data k d st db) now k =
     (if now < expire_after st
      then Some \<lparr>payload = Json d, expires_at = expire_after st\<rparr> else None)"
  by (simp add: redis_GET_def store_leaky_data_def)


lemma store_leaky_data_twice:
  "store_leaky_data k d st (store_leaky_data k d' st' db) = store_leaky_data k d st db"
  by (simp add: store_leaky_data_def)

lemma redis_GET_empty:
  "redis_GET tokenKeys \<lparr>tokenKeys = Map.empty, leakyKeys = lks\<rparr> now k = None"
  "redis_GET leakyKeys \<lparr>tokenKeys = tks, leakyKeys = Map.empty\<rparr> now k = None"
  by (simp_all add: redis_GET_def)

lemma NewTokenBucketRedis_fields:
  "tbr_capacity (NewTokenBucketRedis k c r) = c"
  "tbr_refillRate (NewTokenBucketRedis k c r) = r"
  "tbr_key (NewTokenBucketRedis k c r) = ''rate_limit:token_bucket:'' @ k"
  by (simp_all add: NewTokenBucketRedis_def)

lemma NewLeakyBucketRedis_fields:
  "lbr_capacity (NewLeakyBucketRedis k c r) = c"
  "lbr_leakRate (NewLeakyBucketRedis k c r) = r"
  "lbr_key (NewLeakyBucketRedis k c r) = ''rate_limit:leaky_bucket:'' @ k"
  by (simp_all add: NewLeakyBucketRedis_def)

lemma token_bucket_script_fresh:
  assumes "redis_GET tokenKeys db st k = None"
  shows "token_bucket_script k n capacity rate now st db =
     Inr (if n \<le> capacity then 1 else 0,
          store_token_data k
            \<lparr>td_capacity = capacity,
             td_tokens = (if n \<le> capacity then capacity - n else capacity),
             td_refill_rate_ns = rate,
             td_last_refill_ns = now,
             td_last_updated = now\<rparr> st db)"
  using assms by (simp add: token_bucket_script_def)

lemma leaky_bucket_script_fresh:
  assumes "redis_GET leakyKeys db st k = None"
  shows "leaky_bucket_script k n capacity rate now st db =
     Inr (if n \<le> capacity then 1 else 0,
          store_leaky_data k
            \<lparr>ld_capacity = capacity,
             ld_queue_length = (if n \<le> capacity then n else 0),
             ld_leak_rate_ns = rate,
             ld_last_leak_ns = now,
             ld_last_updated = now\<rparr> st db)"
  using assms by (simp add: leaky_bucket_script_def)


lemma TokenBucketRedis_TryConsume_fresh:
  assumes "redis_GET tokenKeys db now (tbr_key tbr) = None" and "0 \<le> n"
  shows "TokenBucketRedis_TryConsume tbr (Reachable db) now n =
     (n \<le> tbr_capacity tbr,
      Reachable (store_token_data (tbr_key tbr)
        \<lparr>td_capacity = tbr_capacity tbr,
         td_tokens = (if n \<le> tbr_capacity tbr then tbr_capacity tbr - n else tbr_capacity tbr),
         td_refill_rate_ns = tbr_refillRate tbr,
         td_last_refill_ns = now,
         td_last_updated = now\<rparr> now db))"
  using assms(2)
  by (simp add: TokenBucketRedis_TryConsume_def Eval_def token_bucket_script_fresh [OF assms(1)])

lemma LeakyBucketRedis_TryAdd_eq:
  assumes "redis_GET leakyKeys db now (lbr_key lbr) = Some e" and "payload e = Json d"
    and "0 < lbr_leakRate lbr" and "ld_last_leak_ns d \<le> now"
    and "0 \<le> ld_queue_length d" and "0 \<le> n"
  shows "LeakyBucketRedis_TryAdd lbr (Reachable db) now n =
     (let drained = min ((now - ld_last_leak_ns d) div lbr_leakRate lbr) (ld_queue_length d);
          level = ld_queue_length d - drained;
          anchorTime = ld_last_leak_ns d + drained * lbr_leakRate lbr
      in (level + n \<le> lbr_capacity lbr,
          Reachable (store_leaky_data (lbr_key lbr)
            \<lparr>ld_capacity = lbr_capacity lbr,
             ld_queue_length = (if level + n \<le> lbr_capacity lbr then level + n else level),
             ld_leak_rate_ns = lbr_leakRate lbr,
             ld_last_leak_ns = anchorTime,
             ld_last_updated = now\<rparr> now db)))"
  using assms(6)
  by (simp add: LeakyBucketRedis_TryAdd_def Eval_def
        leaky_bucket_script_eq [OF assms(1-5)] Let_def)

lemma LeakyBucketRedis_TryAdd_fresh:
  assumes "redis_GET leakyKeys db now (lbr_key lbr) = None" and "0 \<le> n"
  shows "LeakyBucketRedis_TryAdd lbr (Reachable db) now n =
     (n \<le> lbr_capacity lbr,
      Reachable (store_leaky_data (lbr_key lbr)
        \<lparr>ld_capacity = lbr_capacity lbr,
         ld_queue_length = (if n \<le> lbr_capacity lbr then n else 0),
         ld_leak_rate_ns = lbr_leakRate lbr,
         ld_last_leak_ns = now,
         ld_last_updated = now\<rparr> now db))"
  using assms(2)
  by (simp add: LeakyBucketRedis_TryAdd_def Eval_def leaky_bucket_script_fresh [OF assms(1)])

lemma GetClient_eq:
  assumes "clients rm \<noteq> []"
  shows "GetClient rm k = Inr (Some (nat (uint (ChecksumIEEE k) mod int (length (clients rm)))))"
  using assms by (simp add: GetClient_def)

lemma GetClient_single: "GetClient \<lparr>clients = [srv]\<rparr> k = Inr (Some 0)"
  by (simp add: GetClient_def)

lemma ChecksumIEEE_check: "ChecksumIEEE ''123456789'' = 0xCBF43926"
  by code_simp

section \<open>The token bucket transition\<close>





section \<open>The leaky bucket transition\<close>

text \<open>
  The scenario of the leaky bucket on the in-memory engine: capacity 5, one unit leaking
  every 200 ms, from a fresh bucket.
\<close>

lemma leaky_scenario_memory:
  "leakyBucket_TryAdd (NewLeakyBucket t0 5 200000000) t0 5 =
     Inr (True, \<lparr>lb_capacity = 5, lb_queue = 5, lb_leakRate = 200000000, lb_lastLeak = t0\<rparr>)"
  "leakyBucket_TryAdd
     \<lparr>lb_capacity = 5, lb_queue = 5, lb_leakRate = 200000000, lb_lastLeak = t0\<rparr> t0 1 =
     Inr (False, \<lparr>lb_capacity = 5, lb_queue = 5, lb_leakRate = 200000000, lb_lastLeak = t0\<rparr>)"
  "leakyBucket_GetStatus
     \<lparr>lb_capacity = 5, lb_queue = 5, lb_leakRate = 200000000, lb_lastLeak = t0\<rparr>
     (t0 + 400000000) =
     Inr ((3, 5, t0 + 600000000),
          \<lparr>lb_capacity = 5, lb_queue = 3, lb_leakRate = 200000000,
           lb_lastLeak = t0 + 400000000\<rparr>)"
  by (simp_all add: leakyBucket_TryAdd_def leakyBucket_GetStatus_def leakyBucket_leak_def
        NewLeakyBucket_def time_Sub_def time_Add_def div_i64_nonneg wrap64_id min_i64_def
        MaxInt64_def MinInt64_def)

lemma leaky_scenario_redis:
  fixes t0 :: int and k :: string
  defines "lbr \<equiv> NewLeakyBucketRedis k 5 200000000"
  defines "db5 \<equiv> store_leaky_data (lbr_key lbr)
              \<lparr>ld_capacity = 5, ld_queue_length = 5, ld_leak_rate_ns = 200000000,
               ld_last_leak_ns = t0, ld_last_updated = t0\<rparr>
              t0 \<lparr>tokenKeys = Map.empty, leakyKeys = Map.empty\<rparr>"
  shows "LeakyBucketRedis_TryAdd lbr
           (Reachable \<lparr>tokenKeys = Map.empty, leakyKeys = Map.empty\<rparr>) t0 5 =
           (True, Reachable db5)"
    and "LeakyBucketRedis_TryAdd lbr (Reachable db5) t0 1 = (False, Reachable db5)"
    and "LeakyBucketRedis_GetStatus lbr (Reachable db5) (t0 + 400000000) =
           Inr (3, 5, t0 + 200000000)"
proof -
  have cfg: "lbr_capacity lbr = 5" "lbr_leakRate lbr = 200000000"
    by (simp_all add: lbr_def NewLeakyBucketRedis_fields)
  have fresh: "redis_GET leakyKeys \<lparr>tokenKeys = Map.empty, leakyKeys = Map.empty\<rparr> t0
      (lbr_key lbr) = None"
    by (simp add: redis_GET_empty)
  show "LeakyBucketRedis_TryAdd lbr
           (Reachable \<lparr>tokenKeys = Map.empty, leakyKeys = Map.empty\<rparr>) t0 5 =
           (True, Reachable db5)"
    by (simp add: LeakyBucketRedis_TryAdd_fresh [OF fresh] cfg db5_def)
  have look: "redis_GET leakyKeys db5 t0 (lbr_key lbr) =
      Some \<lparr>payload = Json \<lparr>ld_capacity = 5, ld_queue_length = 5, ld_leak_rate_ns = 200000000,
               ld_last_leak_ns = t0, ld_last_updated = t0\<rparr>, expires_at = expire_after t0\<rparr>"
    and later: "redis_GET leakyKeys db5 (t0 + 400000000) (lbr_key lbr) =
      Some \<lparr>payload = Json \<lparr>ld_capacity = 5, ld_queue_length = 5, ld_leak_rate_ns = 200000000,
               ld_last_leak_ns = t0, ld_last_updated = t0\<rparr>, expires_at = expire_after t0\<rparr>"
    by (simp_all add: db5_def redis_GET_store_leaky_data expire_after_def)
  have pay: "payload \<lparr>payload = Json \<lparr>ld_capacity = 5, ld_queue_length = 5,
        ld_leak_rate_ns = 200000000, ld_last_leak_ns = t0, ld_last_updated = t0\<rparr>,
        expires_at = expire_after t0\<rparr> =
      Json \<lparr>ld_capacity = 5, ld_queue_length = 5, ld_leak_rate_ns = 200000000,
        ld_last_leak_ns = t0, ld_last_updated = t0\<rparr>"
    by simp
  show "LeakyBucketRedis_TryAdd lbr (Reachable db5) t0 1 = (False, Reachable db5)"
    by (subst LeakyBucketRedis_TryAdd_eq [OF look pay])
       (simp_all add: cfg db5_def store_leaky_data_twice Let_def)
  show "LeakyBucketRedis_GetStatus lbr (Reachable db5) (t0 + 400000000) =
           Inr (3, 5, t0 + 200000000)"
    by (simp add: LeakyBucketRedis_GetStatus_def Get_def later time_Add_def div_i64_nonneg
          wrap64_id MaxInt64_def MinInt64_def)
qed

text \<open>
  Claim C2.  The claim: a leaky bucket asked to add \<open>n \<ge> 0\<close> units first drains
  \<open>min ((now - anchorTime) div period) level\<close> units, advances the anchor time by that many
  periods, and then succeeds and adds \<open>n\<close> if and only if \<open>level + n \<le> capacity\<close>.  The
  in-memory engine tests \<open>queue + requests > capacity\<close> in \<open>int64\<close>: with one unit queued
  and a request for 9223372036854775807 units the sum wraps around to the least
  \<open>int64\<close>, the test does not fire, the request is admitted and the queue length becomes
  negative.  The Redis script rejects the same request on the same state.
\<close>

theorem leakyBucket_TryAdd_overflow:
  "leakyBucket_TryAdd
     \<lparr>lb_capacity = 5, lb_queue = 1, lb_leakRate = 200000000, lb_lastLeak = 0\<rparr>
     0 9223372036854775807 =
   Inr (True, \<lparr>lb_capacity = 5, lb_queue = - 9223372036854775808,
               lb_leakRate = 200000000, lb_lastLeak = 0\<rparr>) \<and>
   LeakyBucketRedis_TryAdd
     \<lparr>lbr_key = ''rate_limit:leaky_bucket:u'', lbr_capacity = 5, lbr_leakRate = 200000000\<rparr>
     (Reachable \<lparr>tokenKeys = Map.empty,
        leakyKeys = [''rate_limit:leaky_bucket:u'' \<mapsto>
          \<lparr>payload = Json \<lparr>ld_capacity = 5, ld_queue_length = 1, ld_leak_rate_ns = 200000000,
                          ld_last_leak_ns = 0, ld_last_updated = 0\<rparr>, expires_at = 3600000000000\<rparr>]\<rparr>)
     0 9223372036854775807 =
   (False, Reachable \<lparr>tokenKeys = Map.empty,
        leakyKeys = [''rate_limit:leaky_bucket:u'' \<mapsto>
          \<lparr>payload = Json \<lparr>ld_capacity = 5, ld_queue_length = 1, ld_leak_rate_ns = 200000000,
                          ld_last_leak_ns = 0, ld_last_updated = 0\<rparr>, expires_at = 3600000000000\<rparr>]\<rparr>)"
  by (simp add: leakyBucket_TryAdd_def leakyBucket_leak_def time_Sub_def div_i64_def quo_def
        wrap64_def MaxInt64_def MinInt64_def LeakyBucketRedis_TryAdd_def Eval_def
        leaky_bucket_script_def store_leaky_data_def redis_GET_def expire_after_def)

section \<open>The level invariant\<close>

text \<open>
  Within the \<open>int64\<close> range a step of the in-memory engines keeps the level between 0 and
  the capacity and moves the anchor time forward by whole periods, never past the clock.
\<close>

lemma tokenBucket_TryConsume_invariant:
  assumes "0 < tb_refillRate tb"
    and "tb_lastRefill tb \<le> now" and "now - tb_lastRefill tb \<le> MaxInt64"
    and "0 \<le> tb_tokens tb" and "tb_tokens tb \<le> tb_capacity tb"
    and "tb_tokens tb + (now - tb_lastRefill tb) div tb_refillRate tb \<le> MaxInt64"
    and "0 \<le> n"
  shows "\<exists>j ok tb'. tokenBucket_TryConsume tb now n = Inr (ok, tb') \<and>
           0 \<le> tb_tokens tb' \<and> tb_tokens tb' \<le> tb_capacity tb' \<and>
           tb_capacity tb' = tb_capacity tb \<and> tb_refillRate tb' = tb_refillRate tb \<and>
           0 \<le> j \<and> tb_lastRefill tb' = tb_lastRefill tb + j * tb_refillRate tb \<and>
           tb_lastRefill tb' \<le> now"
proof -
  define j where "j = (now - tb_lastRefill tb) div tb_refillRate tb"
  have jb: "0 \<le> j" "j * tb_refillRate tb \<le> now - tb_lastRefill tb"
    using div_bounds(1,3) [of "now - tb_lastRefill tb" "tb_refillRate tb"] assms(1,2)
    by (simp_all add: j_def)
  show ?thesis
    unfolding tokenBucket_TryConsume_eq [OF assms] Let_def j_def [symmetric]
    using jb assms(4,5,7) by (intro exI [of _ j]) auto
qed

lemma tokenBucket_GetStatus_invariant:
  assumes "0 < tb_refillRate tb"
    and "tb_lastRefill tb \<le> now" and "now - tb_lastRefill tb \<le> MaxInt64"
    and "0 \<le> tb_tokens tb" and "tb_tokens tb \<le> tb_capacity tb"
    and "tb_tokens tb + (now - tb_lastRefill tb) div tb_refillRate tb \<le> MaxInt64"
  shows "\<exists>j st tb'. tokenBucket_GetStatus tb now = Inr (st, tb') \<and>
           0 \<le> tb_tokens tb' \<and> tb_tokens tb' \<le> tb_capacity tb' \<and>
           tb_capacity tb' = tb_capacity tb \<and> tb_refillRate tb' = tb_refillRate tb \<and>
           0 \<le> j \<and> tb_lastRefill tb' = tb_lastRefill tb + j * tb_refillRate tb \<and>
           tb_lastRefill tb' \<le> now"
proof -
  define j where "j = (now - tb_lastRefill tb) div tb_refillRate tb"
  have jb: "0 \<le> j" "j * tb_refillRate tb \<le> now - tb_lastRefill tb"
    using div_bounds(1,3) [of "now - tb_lastRefill tb" "tb_refillRate tb"] assms(1,2)
    by (simp_all add: j_def)
  show ?thesis
    unfolding tokenBucket_GetStatus_def tokenBucket_refill_eq [OF assms] j_def [symmetric]
    using jb assms(4,5) by (intro exI [of _ j]) auto
qed

lemma leakyBucket_TryAdd_invariant:
  assumes "0 < lb_leakRate lb"
    and "lb_lastLeak lb \<le> now" and "now - lb_lastLeak lb \<le> MaxInt64"
    and "0 \<le> lb_queue lb" and "0 \<le> n" and "lb_queue lb + n \<le> MaxInt64"
    and "lb_queue lb \<le> lb_capacity lb"
  shows "\<exists>j ok lb'. leakyBucket_TryAdd lb now n = Inr (ok, lb') \<and>
           0 \<le> lb_queue lb' \<and> lb_queue lb' \<le> lb_capacity lb' \<and>
           lb_capacity lb' = lb_capacity lb \<and> lb_leakRate lb' = lb_leakRate lb \<and>
           0 \<le> j \<and> lb_lastLeak lb' = lb_lastLeak lb + j * lb_leakRate lb \<and>
           lb_lastLeak lb' \<le> now"
proof -
  define q where "q = (now - lb_lastLeak lb) div lb_leakRate lb"
  define j where "j = min q (lb_queue lb)"
  have qb: "0 \<le> q" "q * lb_leakRate lb \<le> now - lb_lastLeak lb"
    using div_bounds(1,3) [of "now - lb_lastLeak lb" "lb_leakRate lb"] assms(1,2)
    by (simp_all add: q_def)
  have jb: "0 \<le> j" "j \<le> lb_queue lb" "j \<le> q" using qb(1) assms(4) by (simp_all add: j_def)
  have "j * lb_leakRate lb \<le> q * lb_leakRate lb"
    using jb(3) assms(1) by (intro mult_right_mono) simp_all
  then have le: "lb_lastLeak lb + j * lb_leakRate lb \<le> now" using qb(2) by linarith
  show ?thesis
    unfolding leakyBucket_TryAdd_eq [OF assms(1-6)] Let_def q_def [symmetric] j_def [symmetric]
    using jb le assms(5,7) by (intro exI [of _ j]) auto
qed

lemma leakyBucket_GetStatus_invariant:
  assumes "0 < lb_leakRate lb"
    and "lb_lastLeak lb \<le> now" and "now - lb_lastLeak lb \<le> MaxInt64"
    and "0 \<le> lb_queue lb" and "lb_queue lb \<le> MaxInt64"
    and "lb_queue lb \<le> lb_capacity lb"
  shows "\<exists>j st lb'. leakyBucket_GetStatus lb now = Inr (st, lb') \<and>
           0 \<le> lb_queue lb' \<and> lb_queue lb' \<le> lb_capacity lb' \<and>
           lb_capacity lb' = lb_capacity lb \<and> lb_leakRate lb' = lb_leakRate lb \<and>
           0 \<le> j \<and> lb_lastLeak lb' = lb_lastLeak lb + j * lb_leakRate lb \<and>
           lb_lastLeak lb' \<le> now"
proof -
  define q where "q = (now - lb_lastLeak lb) div lb_leakRate lb"
  define j where "j = min q (lb_queue lb)"
  have qb: "0 \<le> q" "q * lb_leakRate lb \<le> now - lb_lastLeak lb"
    using div_bounds(1,3) [of "now - lb_lastLeak lb" "lb_leakRate lb"] assms(1,2)
    by (simp_all add: q_def)
  have jb: "0 \<le> j" "j \<le> lb_queue lb" "j \<le> q" using qb(1) assms(4) by (simp_all add: j_def)
  have "j * lb_leakRate lb \<le> q * lb_leakRate lb"
    using jb(3) assms(1) by (intro mult_right_mono) simp_all
  then have le: "lb_lastLeak lb + j * lb_leakRate lb \<le> now" using qb(2) by linarith
  show ?thesis
    unfolding leakyBucket_GetStatus_def leakyBucket_leak_eq [OF assms(1-5)] Let_def
      q_def [symmetric] j_def [symmetric]
    using jb le assms(6) by (intro exI [of _ j]) auto
qed

text \<open>
  Claim C4.  The claim: from a freshly created bucket, over every finite sequence of
  admission attempts with non-negative sizes and status queries, the level stays between
  0 and the capacity.  On the in-memory leaky bucket of capacity 5 the sequence
  \<open>TryAdd 1\<close>, \<open>TryAdd 9223372036854775807\<close> ends with a negative level, and a later status
  query reports it: the defect of the overflowing admission test shown for claim C2.
  The four lemmas above give the invariant for every step whose sums stay in range.
\<close>

theorem leakyBucket_level_invariant_broken:
  "leakyBucket_TryAdd (NewLeakyBucket 0 5 200000000) 0 1 =
     Inr (True, \<lparr>lb_capacity = 5, lb_queue = 1, lb_leakRate = 200000000, lb_lastLeak = 0\<rparr>) \<and>
   leakyBucket_TryAdd
     \<lparr>lb_capacity = 5, lb_queue = 1, lb_leakRate = 200000000, lb_lastLeak = 0\<rparr>
     100000000 9223372036854775807 =
     Inr (True, \<lparr>lb_capacity = 5, lb_queue = - 9223372036854775808,
                 lb_leakRate = 200000000, lb_lastLeak = 0\<rparr>) \<and>
   leakyBucket_GetStatus
     \<lparr>lb_capacity = 5, lb_queue = - 9223372036854775808, lb_leakRate = 200000000,
      lb_lastLeak = 0\<rparr> 1000000000 =
     Inr ((- 9223372036854775808, 5, 200000000),
          \<lparr>lb_capacity = 5, lb_queue = - 9223372036854775808, lb_leakRate = 200000000,
           lb_lastLeak = 0\<rparr>)"
  by (simp add: leakyBucket_TryAdd_def leakyBucket_GetStatus_def leakyBucket_leak_def
        NewLeakyBucket_def time_Sub_def time_Add_def div_i64_def quo_def wrap64_def
        MaxInt64_def MinInt64_def)

section \<open>The two engines on a sequence of attempts\<close>










section \<open>An unreachable instance\<close>

text \<open>
  Claim C3.  The claim: when the operation against the resolved Redis instance fails,
  \<open>Acquire\<close> performs the admission on the in-memory fallback engine of the requested
  algorithm and returns that engine's decision.  In the code \<open>TryConsume\<close> and \<open>TryAdd\<close>
  turn the error of \<open>Eval\<close> into \<open>false\<close>, and \<open>Acquire\<close> enters the fallback only for a nil
  client, which \<open>GetClient\<close> never returns.  With the only instance unreachable, every
  request is denied and the in-memory maps stay untouched, while the fallback engine,
  asked directly, admits one permit on a fresh bucket of capacity 100.
\<close>

theorem Acquire_unreachable_denies:
  "Acquire \<lparr>redisManager = \<lparr>clients = [Unreachable]\<rparr>, config = cfg,
            tokenBuckets = tbs, leakyBuckets = lbs\<rparr> now k n algorithm =
     Inr (False, \<lparr>redisManager = \<lparr>clients = [Unreachable]\<rparr>, config = cfg,
                  tokenBuckets = tbs, leakyBuckets = lbs\<rparr>) \<and>
   acquireInMemoryFallback
     \<lparr>redisManager = \<lparr>clients = [Unreachable]\<rparr>,
      config = \<lparr>DefaultCapacity = 100, DefaultRefill = 1000000000\<rparr>,
      tokenBuckets = Map.empty, leakyBuckets = Map.empty\<rparr> 0 ''u'' 1 ''token_bucket'' =
     Inr (True, \<lparr>redisManager = \<lparr>clients = [Unreachable]\<rparr>,
                 config = \<lparr>DefaultCapacity = 100, DefaultRefill = 1000000000\<rparr>,
                 tokenBuckets = [''u'' \<mapsto> \<lparr>tb_capacity = 100, tb_tokens = 99,
                                   tb_refillRate = 1000000000, tb_lastRefill = 0\<rparr>],
                 leakyBuckets = Map.empty\<rparr>)"
proof -
  have "Acquire \<lparr>redisManager = \<lparr>clients = [Unreachable]\<rparr>, config = cfg,
            tokenBuckets = tbs, leakyBuckets = lbs\<rparr> now k n algorithm =
     Inr (False, \<lparr>redisManager = \<lparr>clients = [Unreachable]\<rparr>, config = cfg,
                  tokenBuckets = tbs, leakyBuckets = lbs\<rparr>)"
    by (simp add: Acquire_def GetClient_single TokenBucketRedis_TryConsume_def
          LeakyBucketRedis_TryAdd_def Eval_def)
  moreover have "acquireInMemoryFallback
     \<lparr>redisManager = \<lparr>clients = [Unreachable]\<rparr>,
      config = \<lparr>DefaultCapacity = 100, DefaultRefill = 1000000000\<rparr>,
      tokenBuckets = Map.empty, leakyBuckets = Map.empty\<rparr> 0 ''u'' 1 ''token_bucket'' =
     Inr (True, \<lparr>redisManager = \<lparr>clients = [Unreachable]\<rparr>,
                 config = \<lparr>DefaultCapacity = 100, DefaultRefill = 1000000000\<rparr>,
                 tokenBuckets = [''u'' \<mapsto> \<lparr>tb_capacity = 100, tb_tokens = 99,
                                   tb_refillRate = 1000000000, tb_lastRefill = 0\<rparr>],
                 leakyBuckets = Map.empty\<rparr>)"
    by (simp add: acquireInMemoryFallback_def getOrCreateTokenBucket_def NewTokenBucket_def
          tokenBucket_TryConsume_def tokenBucket_refill_def time_Sub_def div_i64_def quo_def
          wrap64_def MaxInt64_def MinInt64_def Let_def)
  ultimately show ?thesis by (rule conjI)
qed

section \<open>A corrupt record\<close>

text \<open>
  Claim C8.  The claim: a stored record that cannot be parsed is treated as no prior
  state, a fresh bucket at full capacity, by the admission operation and by the status
  query.  The status query does so: \<open>GetStatus\<close> answers with the configured capacity.
  The admission does not: \<open>cjson.decode\<close> aborts the script, \<open>Eval\<close> returns an error and
  \<open>TryConsume\<close> and \<open>TryAdd\<close> answer \<open>false\<close>, for every request size, leaving the corrupt
  record in place, so the key stays denied for as long as the record lives.
\<close>

theorem corrupt_record_denies_admission:
  "TokenBucketRedis_TryConsume tbr
     (Reachable (db\<lparr>tokenKeys := (tokenKeys db)(tbr_key tbr \<mapsto> \<lparr>payload = Corrupt, expires_at = expire_after now\<rparr>)\<rparr>))
     now n =
   (False,
    Reachable (db\<lparr>tokenKeys := (tokenKeys db)(tbr_key tbr \<mapsto> \<lparr>payload = Corrupt, expires_at = expire_after now\<rparr>)\<rparr>)) \<and>
   LeakyBucketRedis_TryAdd lbr
     (Reachable (db\<lparr>leakyKeys := (leakyKeys db)(lbr_key lbr \<mapsto> \<lparr>payload = Corrupt, expires_at = expire_after now\<rparr>)\<rparr>))
     now n =
   (False,
    Reachable (db\<lparr>leakyKeys := (leakyKeys db)(lbr_key lbr \<mapsto> \<lparr>payload = Corrupt, expires_at = expire_after now\<rparr>)\<rparr>)) \<and>
   TokenBucketRedis_GetStatus tbr
     (Reachable (db\<lparr>tokenKeys := (tokenKeys db)(tbr_key tbr \<mapsto> \<lparr>payload = Corrupt, expires_at = expire_after now\<rparr>)\<rparr>))
     now =
   Inr (tbr_capacity tbr, tbr_capacity tbr, now + tbr_refillRate tbr) \<and>
   LeakyBucketRedis_GetStatus lbr
     (Reachable (db\<lparr>leakyKeys := (leakyKeys db)(lbr_key lbr \<mapsto> \<lparr>payload = Corrupt, expires_at = expire_after now\<rparr>)\<rparr>))
     now =
   Inr (0, lbr_capacity lbr, now + lbr_leakRate lbr) \<and>
   TokenBucketRedis_TryConsume
     \<lparr>tbr_key = ''rate_limit:token_bucket:u'', tbr_capacity = 10, tbr_refillRate = 1000000000\<rparr>
     (Reachable \<lparr>tokenKeys = Map.empty, leakyKeys = Map.empty\<rparr>) 0 1 =
   (True, Reachable \<lparr>tokenKeys = [''rate_limit:token_bucket:u'' \<mapsto>
       \<lparr>payload = Json \<lparr>td_capacity = 10, td_tokens = 9, td_refill_rate_ns = 1000000000,
                       td_last_refill_ns = 0, td_last_updated = 0\<rparr>, expires_at = 3600000000000\<rparr>],
     leakyKeys = Map.empty\<rparr>)"
  by (simp add: TokenBucketRedis_TryConsume_def LeakyBucketRedis_TryAdd_def Eval_def
        token_bucket_script_def leaky_bucket_script_def TokenBucketRedis_GetStatus_def
        LeakyBucketRedis_GetStatus_def Get_def time_Add_def store_token_data_def redis_GET_def
        expire_after_def)

section \<open>Routing\<close>

text \<open>
  Claim C7.  With \<open>N \<ge> 1\<close> clients, the index of a key is the CRC-32 (IEEE) checksum of
  its bytes modulo \<open>N\<close>; it lies below \<open>N\<close>, \<open>GetClient\<close> returns the client at that
  index, and the index depends on the key and on \<open>N\<close> only, so resolving the same key
  again, whatever has happened to the instances in between, gives the same index.  The
  checksum is the standard one: its value on \<open>123456789\<close> is \<open>0xCBF43926\<close>.
\<close>

theorem routing_deterministic:
  assumes "1 \<le> length (clients rm)"
  shows "GetClientIndex rm k = Inr (uint (ChecksumIEEE k) mod int (length (clients rm))) \<and>
         GetClient rm k = Inr (Some (nat (uint (ChecksumIEEE k) mod int (length (clients rm))))) \<and>
         0 \<le> uint (ChecksumIEEE k) mod int (length (clients rm)) \<and>
         nat (uint (ChecksumIEEE k) mod int (length (clients rm))) < length (clients rm) \<and>
         (length (clients rm') = length (clients rm) \<longrightarrow>
            GetClientIndex rm' k = GetClientIndex rm k \<and> GetClient rm' k = GetClient rm k) \<and>
         ChecksumIEEE ''123456789'' = 0xCBF43926"
proof -
  let ?n = "int (length (clients rm))"
  have n: "0 < ?n" using assms by (cases "clients rm") simp_all
  have r: "0 \<le> uint (ChecksumIEEE k) mod ?n" "uint (ChecksumIEEE k) mod ?n < ?n"
    using n by simp_all
  have "nat (uint (ChecksumIEEE k) mod ?n) < length (clients rm)"
    using r by linarith
  then show ?thesis
    using assms r(1) by (auto simp: GetClientIndex_def GetClient_def ChecksumIEEE_check)
qed

theorem routing_deterministic_witness:
  "1 \<le> length (clients \<lparr>clients = [Unreachable, Unreachable]\<rparr>) \<and>
   GetClientIndex \<lparr>clients = [Unreachable, Unreachable]\<rparr> ''123456789'' = Inr 0 \<and>
   GetClient \<lparr>clients = [Unreachable, Unreachable]\<rparr> ''123456789'' = Inr (Some 0)"
proof -
  have h: "1 \<le> length (clients \<lparr>clients = [Unreachable, Unreachable]\<rparr>)" by simp
  have c: "uint (ChecksumIEEE ''123456789'') mod 2 = 0"
    by (simp add: ChecksumIEEE_check)
  show ?thesis
    using h routing_deterministic [OF h, of "''123456789''"] c by simp
qed

section \<open>Negative and zero requests\<close>





section \<open>The primary algorithm of a status\<close>

text \<open>
  A key has prior state for an algorithm exactly when the resolved instance is reachable
  and holds an unexpired record under the algorithm's key.
\<close>

lemma getTokenBucketStatus_HasState:
  assumes "clients (redisManager rrs) \<noteq> []"
    and "getTokenBucketStatus rrs now k = Inr (st, rrs')"
  shows "as_HasState st =
     (\<exists>db e. clients (redisManager rrs) !
                nat (uint (ChecksumIEEE k) mod int (length (clients (redisManager rrs)))) =
                Reachable db \<and>
              redis_GET tokenKeys db now (''rate_limit:token_bucket:'' @ k) = Some e)"
  using assms
  by (auto simp: getTokenBucketStatus_def GetClient_eq Let_def defaultStatus_def
        TokenBucketRedis_HasState_def Get_def NewTokenBucketRedis_fields
      split: if_splits sum.splits redis_server.splits option.splits prod.splits)

lemma getLeakyBucketStatus_HasState:
  assumes "clients (redisManager rrs) \<noteq> []"
    and "getLeakyBucketStatus rrs now k = Inr (st, rrs')"
  shows "as_HasState st =
     (\<exists>db e. clients (redisManager rrs) !
                nat (uint (ChecksumIEEE k) mod int (length (clients (redisManager rrs)))) =
                Reachable db \<and>
              redis_GET leakyKeys db now (''rate_limit:leaky_bucket:'' @ k) = Some e)"
  using assms
  by (auto simp: getLeakyBucketStatus_def GetClient_eq Let_def defaultStatus_def
        LeakyBucketRedis_HasState_def Get_def NewLeakyBucketRedis_fields
      split: if_splits sum.splits redis_server.splits option.splits prod.splits)




section \<open>Non-positive counts at the endpoint\<close>

lemma Acquire_single_fresh_token:
  assumes "redisManager rrs = \<lparr>clients = [Reachable db]\<rparr>"
    and "redis_GET tokenKeys db now (''rate_limit:token_bucket:'' @ k) = None"
    and "algorithm \<noteq> ''leaky_bucket''" and "0 \<le> n"
  shows "Acquire rrs now k n algorithm =
     Inr (n \<le> DefaultCapacity (config rrs),
          rrs\<lparr>redisManager := \<lparr>clients = [Reachable
            (store_token_data (''rate_limit:token_bucket:'' @ k)
               \<lparr>td_capacity = DefaultCapacity (config rrs),
                td_tokens = (if n \<le> DefaultCapacity (config rrs)
                             then DefaultCapacity (config rrs) - n
                             else DefaultCapacity (config rrs)),
                td_refill_rate_ns = DefaultRefill (config rrs),
                td_last_refill_ns = now,
                td_last_updated = now\<rparr> now db)]\<rparr>\<rparr>)"
proof -
  have f: "redis_GET tokenKeys db now (tbr_key (NewTokenBucketRedis k (DefaultCapacity (config rrs))
             (DefaultRefill (config rrs)))) = None"
    using assms(2) by (simp add: NewTokenBucketRedis_fields)
  show ?thesis
    using assms(3)
    by (simp add: Acquire_def assms(1) GetClient_single
          TokenBucketRedis_TryConsume_fresh [OF f assms(4)] NewTokenBucketRedis_fields)
qed

text \<open>
  Claim C10.  A POST request with a user id and a decodable body whose token count is
  zero or negative is handled exactly as the same request asking for one token: the
  handler calls \<open>Acquire\<close> with the user id as key and with 1 permit, and answers with
  that call's outcome.  On success the permit is taken: for a key without a record on a
  reachable instance and a capacity of at least 1 the stored level is the capacity minus
  one.
\<close>

theorem AcquireHandler_nonpositive_tokens:
  assumes "req_method r = ''POST''" and "req_userID r \<noteq> []"
    and "req_body r = Some body" and "ar_Tokens body \<le> 0"
  shows "AcquireHandler rrs now r =
           (case Acquire rrs now (req_userID r) 1
                   (if ar_Algorithm body = [] then ''token_bucket'' else ar_Algorithm body) of
              Inl p \<Rightarrow> Inl p
            | Inr (allowed, rrs') \<Rightarrow>
                Inr (if allowed then SendAcquireSuccess else SendRateLimited, rrs')) \<and>
         AcquireHandler rrs now r =
           AcquireHandler rrs now (r\<lparr>req_body := Some (body\<lparr>ar_Tokens := 1\<rparr>)\<rparr>) \<and>
         (redisManager rrs = \<lparr>clients = [Reachable db]\<rparr> \<and>
          redis_GET tokenKeys db now (''rate_limit:token_bucket:'' @ req_userID r) = None \<and>
          ar_Algorithm body = [] \<and> 1 \<le> DefaultCapacity (config rrs) \<longrightarrow>
            AcquireHandler rrs now r =
              Inr (SendAcquireSuccess,
                   rrs\<lparr>redisManager := \<lparr>clients = [Reachable
                     (store_token_data (''rate_limit:token_bucket:'' @ req_userID r)
                        \<lparr>td_capacity = DefaultCapacity (config rrs),
                         td_tokens = DefaultCapacity (config rrs) - 1,
                         td_refill_rate_ns = DefaultRefill (config rrs),
                         td_last_refill_ns = now,
                         td_last_updated = now\<rparr> now db)]\<rparr>\<rparr>))"
proof -
  have a: "AcquireHandler rrs now r =
           (case Acquire rrs now (req_userID r) 1
                   (if ar_Algorithm body = [] then ''token_bucket'' else ar_Algorithm body) of
              Inl p \<Rightarrow> Inl p
            | Inr (allowed, rrs') \<Rightarrow>
                Inr (if allowed then SendAcquireSuccess else SendRateLimited, rrs'))"
    using assms by (simp add: AcquireHandler_def Let_def)
  have b: "AcquireHandler rrs now (r\<lparr>req_body := Some (body\<lparr>ar_Tokens := 1\<rparr>)\<rparr>) =
           (case Acquire rrs now (req_userID r) 1
                   (if ar_Algorithm body = [] then ''token_bucket'' else ar_Algorithm body) of
              Inl p \<Rightarrow> Inl p
            | Inr (allowed, rrs') \<Rightarrow>
                Inr (if allowed then SendAcquireSuccess else SendRateLimited, rrs'))"
    using assms by (simp add: AcquireHandler_def Let_def)
  have c: "AcquireHandler rrs now r =
              Inr (SendAcquireSuccess,
                   rrs\<lparr>redisManager := \<lparr>clients = [Reachable
                     (store_token_data (''rate_limit:token_bucket:'' @ req_userID r)
                        \<lparr>td_capacity = DefaultCapacity (config rrs),
                         td_tokens = DefaultCapacity (config rrs) - 1,
                         td_refill_rate_ns = DefaultRefill (config rrs),
                         td_last_refill_ns = now,
                         td_last_updated = now\<rparr> now db)]\<rparr>\<rparr>)"
    if h: "redisManager rrs = \<lparr>clients = [Reachable db]\<rparr>"
      "redis_GET tokenKeys db now (''rate_limit:token_bucket:'' @ req_userID r) = None"
      "ar_Algorithm body = []" "1 \<le> DefaultCapacity (config rrs)"
  proof -
    have "Acquire rrs now (req_userID r) 1 ''token_bucket'' =
       Inr (True, rrs\<lparr>redisManager := \<lparr>clients = [Reachable
            (store_token_data (''rate_limit:token_bucket:'' @ req_userID r)
               \<lparr>td_capacity = DefaultCapacity (config rrs),
                td_tokens = DefaultCapacity (config rrs) - 1,
                td_refill_rate_ns = DefaultRefill (config rrs),
                td_last_refill_ns = now,
                td_last_updated = now\<rparr> now db)]\<rparr>\<rparr>)"
      using Acquire_single_fresh_token [OF h(1,2), of "''token_bucket''" 1] h(4)
      by simp
    then show ?thesis using a h(3) by simp
  qed
  from a b c show ?thesis by simp
qed

theorem AcquireHandler_nonpositive_tokens_witness:
  "(let r = \<lparr>req_method = ''POST'', req_userID = ''u'',
             req_body = Some \<lparr>ar_Key = ''x'', ar_Tokens = - 3, ar_Algorithm = []\<rparr>\<rparr>;
        db = \<lparr>tokenKeys = Map.empty, leakyKeys = Map.empty\<rparr>;
        rrs = \<lparr>redisManager = \<lparr>clients = [Reachable db]\<rparr>,
               config = \<lparr>DefaultCapacity = 10, DefaultRefill = 1000000000\<rparr>,
               tokenBuckets = Map.empty, leakyBuckets = Map.empty\<rparr>
    in req_method r = ''POST'' \<and> req_userID r \<noteq> [] \<and>
       req_body r = Some \<lparr>ar_Key = ''x'', ar_Tokens = - 3, ar_Algorithm = []\<rparr> \<and>
       ar_Tokens \<lparr>ar_Key = ''x'', ar_Tokens = - 3, ar_Algorithm = []\<rparr> \<le> 0 \<and>
       AcquireHandler rrs 0 r =
         Inr (SendAcquireSuccess,
              rrs\<lparr>redisManager := \<lparr>clients = [Reachable
                (store_token_data ''rate_limit:token_bucket:u''
                   \<lparr>td_capacity = 10, td_tokens = 9, td_refill_rate_ns = 1000000000,
                    td_last_refill_ns = 0, td_last_updated = 0\<rparr> 0 db)]\<rparr>\<rparr>))"
proof -
  define body where "body = \<lparr>ar_Key = ''x'', ar_Tokens = - 3, ar_Algorithm = []\<rparr>"
  define r where "r = \<lparr>req_method = ''POST'', req_userID = ''u'', req_body = Some body\<rparr>"
  define db where "db = \<lparr>tokenKeys = Map.empty, leakyKeys = Map.empty\<rparr>"
  define rrs where "rrs = \<lparr>redisManager = \<lparr>clients = [Reachable db]\<rparr>,
               config = \<lparr>DefaultCapacity = 10, DefaultRefill = 1000000000\<rparr>,
               tokenBuckets = Map.empty, leakyBuckets = Map.empty\<rparr>"
  have h: "req_method r = ''POST''" "req_userID r \<noteq> []" "req_body r = Some body"
    "ar_Tokens body \<le> 0"
    by (simp_all add: r_def body_def)
  have g: "redisManager rrs = \<lparr>clients = [Reachable db]\<rparr>"
    "redis_GET tokenKeys db 0 (''rate_limit:token_bucket:'' @ req_userID r) = None"
    "ar_Algorithm body = []" "1 \<le> DefaultCapacity (config rrs)"
    by (simp_all add: rrs_def db_def body_def redis_GET_empty)
  have c: "AcquireHandler rrs 0 r =
         Inr (SendAcquireSuccess,
              rrs\<lparr>redisManager := \<lparr>clients = [Reachable
                (store_token_data ''rate_limit:token_bucket:u''
                   \<lparr>td_capacity = 10, td_tokens = 9, td_refill_rate_ns = 1000000000,
                    td_last_refill_ns = 0, td_last_updated = 0\<rparr> 0 db)]\<rparr>\<rparr>)"
    using AcquireHandler_nonpositive_tokens [OF h, of rrs 0 db, THEN conjunct2, THEN conjunct2] g
    by (simp add: rrs_def r_def)
  show ?thesis
    unfolding Let_def using h c
    by (simp only: body_def [symmetric] r_def [symmetric] db_def [symmetric]
          rrs_def [symmetric] simp_thms)
qed

end
